theory Spec2Isabelle
  imports Main "HOL-Library.Word" "HOL-Library.Sublist"
begin

unbundle bit_operations_syntax

section \<open>Bytes, strings and formatting\<close>

text \<open>
  A Go \<^verbatim>\<open>[]byte\<close> is modelled by its contents, a list of 8-bit words, and a Go
  \<^verbatim>\<open>string\<close> by the list of its bytes (\<^typ>\<open>string\<close>, whose characters are
  bytes). \<^verbatim>\<open>bytes.Equal\<close> is equality of the contents, hence equality of lists.
  Lengths are Go \<^verbatim>\<open>int\<close>s. A slice being its contents, the model has one empty
  slice and does not tell Go's \<^verbatim>\<open>nil\<close> slice from it (the codec's default settings
  write a \<^verbatim>\<open>nil\<close> slice as a null marker, an empty one as an empty byte string); the
  specification takes the nonce and the key digest to be non-empty.
\<close>

type_synonym byte = "8 word"
type_synonym bytes = "byte list"

definition string_bytes :: "string \<Rightarrow> bytes" where
  "string_bytes s = map of_char s"

definition be_int :: "nat \<Rightarrow> int \<Rightarrow> bytes" where
  \<comment> \<open>the low \<open>k\<close> bytes of \<open>x\<close>, most significant first\<close>
  "be_int k x = map (\<lambda>i. word_of_int (x div 256 ^ i)) (rev [0..<k])"

definition digit_char :: "int \<Rightarrow> char" where
  "digit_char n = char_of (48 + n)"

definition fmt_byte :: "byte \<Rightarrow> string" where
  \<comment> \<open>\<^verbatim>\<open>%v\<close> of one element of a byte slice: its decimal value\<close>
  "fmt_byte b =
     (let n = uint b in
      if n < 10 then [digit_char n]
      else if n < 100 then [digit_char (n div 10), digit_char (n mod 10)]
      else [digit_char (n div 100), digit_char (n div 10 mod 10), digit_char (n mod 10)])"

fun join_space :: "string list \<Rightarrow> string" where
  "join_space [] = []"
| "join_space [s] = s"
| "join_space (s # t # ss) = s @ '' '' @ join_space (t # ss)"

definition fmt_bytes :: "bytes \<Rightarrow> string" where
  \<comment> \<open>\<^verbatim>\<open>%v\<close> of a byte slice: \<^verbatim>\<open>[89 164 127]\<close>\<close>
  "fmt_bytes bs = ''['' @ join_space (map fmt_byte bs) @ '']''"

section \<open>The structured-binary codec on the values the transcript is made of\<close>

text \<open>
  \<^verbatim>\<open>cbor.Marshal\<close> belongs to a library outside the repository. It is modelled on the
  four kinds of value that \<^verbatim>\<open>generateAppleSessionTranscript\<close> hands to it, by the
  definite-length, shortest-head encoding of RFC 8949: a head byte carrying the major
  type in its high three bits and the length (or 24..27 and the length in 1, 2, 4 or 8
  following bytes) in its low five, then the content. None of these kinds makes the
  encoder fail.
\<close>

datatype go_value =
    GoNil
  | GoString string
  | GoBytes bytes
  | GoSlice "go_value list"

definition cbor_head :: "int \<Rightarrow> int \<Rightarrow> bytes" where
  "cbor_head major n =
     (if n < 24 then [word_of_int (32 * major + n)]
      else if n < 256 then word_of_int (32 * major + 24) # be_int 1 n
      else if n < 65536 then word_of_int (32 * major + 25) # be_int 2 n
      else if n < 4294967296 then word_of_int (32 * major + 26) # be_int 4 n
      else word_of_int (32 * major + 27) # be_int 8 n)"

fun cbor_encode :: "go_value \<Rightarrow> bytes" where
  "cbor_encode GoNil = [0xf6]"
| "cbor_encode (GoString s) = cbor_head 3 (int (length s)) @ string_bytes s"
| "cbor_encode (GoBytes b) = cbor_head 2 (int (length b)) @ b"
| "cbor_encode (GoSlice vs) = cbor_head 4 (int (length vs)) @ concat (map cbor_encode vs)"

definition cbor_Marshal :: "go_value \<Rightarrow> string + bytes" where
  "cbor_Marshal v = Inr (cbor_encode v)"

section \<open>The session transcript\<close>

definition APPLE_HANDOVER_V1 :: string where
  "APPLE_HANDOVER_V1 = ''AppleIdentityPresentment_1.0''"

definition generateAppleSessionTranscript ::
  "string \<Rightarrow> string \<Rightarrow> bytes \<Rightarrow> bytes \<Rightarrow> string + bytes" where
  "generateAppleSessionTranscript merchantID temaID nonce requesterIdHash =
     (let appleHandover =
            GoSlice [GoNil, GoNil,
                     GoSlice [GoString APPLE_HANDOVER_V1, GoBytes nonce, GoString merchantID,
                              GoString temaID, GoBytes requesterIdHash]]
      in case cbor_Marshal appleHandover of
           Inl err \<Rightarrow> Inl (''error encoding transcript: '' @ err)
         | Inr transcript \<Rightarrow> Inr transcript)"

section \<open>Hexadecimal strings\<close>

definition hextable :: string where
  "hextable = ''0123456789abcdef''"

definition hex_EncodeToString :: "bytes \<Rightarrow> string" where
  "hex_EncodeToString src =
     concat (map (\<lambda>v. [hextable ! nat (uint v div 16), hextable ! nat (uint v mod 16)]) src)"

definition fromHexChar :: "char \<Rightarrow> int option" where
  "fromHexChar c =
     (let n = of_char c :: int in
      if 48 \<le> n \<and> n \<le> 57 then Some (n - 48)
      else if 97 \<le> n \<and> n \<le> 102 then Some (n - 97 + 10)
      else if 65 \<le> n \<and> n \<le> 70 then Some (n - 65 + 10)
      else None)"

fun hex_DecodeString :: "string \<Rightarrow> bytes option" where
  "hex_DecodeString [] = Some []"
| "hex_DecodeString [c] = None"
| "hex_DecodeString (p # q # rest) =
     (case fromHexChar p of
        None \<Rightarrow> None
      | Some a \<Rightarrow>
         (case fromHexChar q of
            None \<Rightarrow> None
          | Some b \<Rightarrow>
             (case hex_DecodeString rest of
                None \<Rightarrow> None
              | Some bs \<Rightarrow> Some (word_of_int (a * 16 + b) # bs))))"

section \<open>The digest\<close>

text \<open>
  The 256-bit secure hash of FIPS 180-4, on 32-bit words held as integers with the
  wrap-around written out.
\<close>

definition add32 :: "int \<Rightarrow> int \<Rightarrow> int" where
  "add32 x y = (x + y) mod 4294967296"

definition shr :: "nat \<Rightarrow> int \<Rightarrow> int" where
  "shr n x = x div 2 ^ n"

definition rotr :: "nat \<Rightarrow> int \<Rightarrow> int" where
  "rotr n x = x div 2 ^ n + (x mod 2 ^ n) * 2 ^ (32 - n)"

definition not32 :: "int \<Rightarrow> int" where
  "not32 x = 4294967295 - x"

definition bsig0 :: "int \<Rightarrow> int" where
  "bsig0 x = rotr 2 x XOR rotr 13 x XOR rotr 22 x"

definition bsig1 :: "int \<Rightarrow> int" where
  "bsig1 x = rotr 6 x XOR rotr 11 x XOR rotr 25 x"

definition ssig0 :: "int \<Rightarrow> int" where
  "ssig0 x = rotr 7 x XOR rotr 18 x XOR shr 3 x"

definition ssig1 :: "int \<Rightarrow> int" where
  "ssig1 x = rotr 17 x XOR rotr 19 x XOR shr 10 x"

definition ch :: "int \<Rightarrow> int \<Rightarrow> int \<Rightarrow> int" where
  "ch x y z = (x AND y) XOR (not32 x AND z)"

definition maj :: "int \<Rightarrow> int \<Rightarrow> int \<Rightarrow> int" where
  "maj x y z = (x AND y) XOR (x AND z) XOR (y AND z)"

fun be_words :: "bytes \<Rightarrow> int list" where
  "be_words (a # b # c # d # rest) =
     (((uint a * 256 + uint b) * 256 + uint c) * 256 + uint d) # be_words rest"
| "be_words _ = []"

definition words_of_hex :: "string \<Rightarrow> int list" where
  "words_of_hex s = (case hex_DecodeString s of None \<Rightarrow> [] | Some bs \<Rightarrow> be_words bs)"

definition K256 :: "int list" where
  \<comment> \<open>the sixty-four round constants, eight hexadecimal digits each\<close>
  "K256 = words_of_hex
     (''428a2f9871374491b5c0fbcfe9b5dba53956c25b59f111f1923f82a4ab1c5ed5''
    @ ''d807aa9812835b01243185be550c7dc372be5d7480deb1fe9bdc06a7c19bf174''
    @ ''e49b69c1efbe47860fc19dc6240ca1cc2de92c6f4a7484aa5cb0a9dc76f988da''
    @ ''983e5152a831c66db00327c8bf597fc7c6e00bf3d5a7914706ca635114292967''
    @ ''27b70a852e1b21384d2c6dfc53380d13650a7354766a0abb81c2c92e92722c85''
    @ ''a2bfe8a1a81a664bc24b8b70c76c51a3d192e819d6990624f40e3585106aa070''
    @ ''19a4c1161e376c082748774c34b0bcb5391c0cb34ed8aa4a5b9cca4f682e6ff3''
    @ ''748f82ee78a5636f84c878148cc7020890befffaa4506cebbef9a3f7c67178f2'')"

definition H256 :: "int list" where
  \<comment> \<open>the initial hash value\<close>
  "H256 = words_of_hex ''6a09e667bb67ae853c6ef372a54ff53a510e527f9b05688c1f83d9ab5be0cd19''"

definition sha256_pad :: "bytes \<Rightarrow> bytes" where
  "sha256_pad msg =
     msg @ [0x80] @ replicate ((119 - length msg mod 64) mod 64) 0
         @ be_int 8 (8 * int (length msg))"

primrec schedule :: "nat \<Rightarrow> int list \<Rightarrow> int list" where
  "schedule 0 w = w"
| "schedule (Suc n) w =
     schedule n (w @ [add32 (add32 (add32 (ssig1 (w ! (length w - 2))) (w ! (length w - 7)))
                       (ssig0 (w ! (length w - 15)))) (w ! (length w - 16))])"

fun round256 :: "int list \<Rightarrow> int \<times> int \<Rightarrow> int list" where
  "round256 [a, b, c, d, e, f, g, h] (k, w) =
     (let t1 = add32 (add32 (add32 (add32 h (bsig1 e)) (ch e f g)) k) w;
          t2 = add32 (bsig0 a) (maj a b c)
      in [add32 t1 t2, a, b, c, add32 d t1, e, f, g])"
| "round256 s _ = s"

definition compress :: "int list \<Rightarrow> int list \<Rightarrow> int list" where
  "compress hs block =
     map2 add32 hs (foldl round256 hs (zip K256 (schedule 48 block)))"

fun chunks16 :: "int list \<Rightarrow> int list list" where
  "chunks16 [] = []"
| "chunks16 ws = take 16 ws # chunks16 (drop 16 ws)"

text \<open>
  Modelled from the spec: \<^verbatim>\<open>protocol.Digest\<close> (\<^verbatim>\<open>calcDigest\<close> in the test file) is
  not among the sources. The spec describes it as a pure function from bytes and an
  algorithm identifier to a fixed-length digest, the reference being a 256-bit secure
  hash, which the callers name \<^verbatim>\<open>"SHA-256"\<close>; \<open>sha256\<close> is the digest under that
  identifier.
\<close>

definition sha256 :: "bytes \<Rightarrow> bytes" where
  "sha256 msg = concat (map (be_int 4) (foldl compress H256 (chunks16 (be_words (sha256_pad msg)))))"

section \<open>The envelope and the external primitives\<close>

record HPKEParams =
  Mode :: "64 word"
  PkEM :: bytes
  PkRHash :: bytes
  InfoHash :: bytes

record HPKEEnvelope =
  Algorithm :: string
  Params :: HPKEParams
  Data :: bytes

text \<open>The anonymous struct that the plaintext is decoded into, with its one field.\<close>

record 'c topics =
  Identity :: 'c

text \<open>
  What \<^verbatim>\<open>ParseDeviceResponse\<close> calls and the sources do not contain is taken as a
  parameter: the two decoders of the codec (\<^verbatim>\<open>cbor.Unmarshal\<close> into an envelope and
  into the plaintext wrapper), \<^verbatim>\<open>protocol.Digest\<close>, the encoding of the public key of
  a private key (\<^verbatim>\<open>privateKey.PublicKey().Bytes()\<close>) and \<^verbatim>\<open>protocol.DecryptHPKE\<close>.
  Each is a function; a failure is the message of the error it returns. The type
  \<open>'k\<close> stands for a private key (the pointer handed to the function is taken to
  point to one), \<open>'c\<close> for \<^verbatim>\<open>mdoc.DeviceResponse\<close>.
\<close>

record ('k, 'c) primitives =
  cbor_Unmarshal_envelope :: "bytes \<Rightarrow> string + HPKEEnvelope"
  Digest :: "bytes \<Rightarrow> string \<Rightarrow> bytes"
  PublicKey_Bytes :: "'k \<Rightarrow> bytes"
  DecryptHPKE :: "bytes \<Rightarrow> bytes \<Rightarrow> bytes \<Rightarrow> 'k \<Rightarrow> string + bytes"
  cbor_Unmarshal_topics :: "bytes \<Rightarrow> string + 'c topics"

text \<open>
  One call of the decrypt primitive: ciphertext, sender ephemeral key, associated data
  and recipient private key, in the order of the arguments of \<^verbatim>\<open>DecryptHPKE\<close>.
\<close>

type_synonym 'k decrypt_call = "bytes \<times> bytes \<times> bytes \<times> 'k"

text \<open>
  What a run of \<^verbatim>\<open>ParseDeviceResponse\<close> gives back: the three results of the Go
  function (\<open>None\<close> is \<^verbatim>\<open>nil\<close>; an error is its message), and the calls of the decrypt
  primitive the run has made, in order.
\<close>

record ('k, 'c) outcome =
  ret_claims :: "'c option"
  ret_transcript :: "bytes option"
  ret_err :: "string option"
  decrypt_calls :: "'k decrypt_call list"

definition return_error :: "string \<Rightarrow> 'k decrypt_call list \<Rightarrow> ('k, 'c) outcome" where
  \<comment> \<open>\<^verbatim>\<open>return nil, nil, fmt.Errorf(...)\<close>\<close>
  "return_error msg calls =
     \<lparr>ret_claims = None, ret_transcript = None, ret_err = Some msg, decrypt_calls = calls\<rparr>"

definition ParseDeviceResponse ::
  "('k, 'c) primitives \<Rightarrow> bytes \<Rightarrow> string \<Rightarrow> string \<Rightarrow> 'k \<Rightarrow> bytes \<Rightarrow> ('k, 'c) outcome" where
  "ParseDeviceResponse P data merchantID temaID privateKey nonceByte =
     (case cbor_Unmarshal_envelope P data of
        Inl err \<Rightarrow> return_error (''Error unmarshal cbor string: '' @ err) []
      | Inr claims \<Rightarrow>
         (case generateAppleSessionTranscript merchantID temaID nonceByte
                 (Digest P (PublicKey_Bytes P privateKey) ''SHA-256'') of
            Inl err \<Rightarrow> return_error (''failed to create aad: '' @ err) []
          | Inr info \<Rightarrow>
             if Digest P info ''SHA-256'' \<noteq> InfoHash (Params claims) then
               return_error (''infoHash is not match: '' @ fmt_bytes (Digest P info ''SHA-256'')
                             @ '' != '' @ fmt_bytes (InfoHash (Params claims))) []
             else if Digest P (PublicKey_Bytes P privateKey) ''SHA-256'' \<noteq> PkRHash (Params claims) then
               return_error ''PkRHash is not match'' []
             else
               (let call = (Data claims, PkEM (Params claims), info, privateKey) in
                case DecryptHPKE P (Data claims) (PkEM (Params claims)) info privateKey of
                  Inl err \<Rightarrow> return_error (''Error DecryptHPKE: '' @ err) [call]
                | Inr plaintext \<Rightarrow>
                   (case cbor_Unmarshal_topics P plaintext of
                      Inl err \<Rightarrow> return_error (''Error unmarshal cbor string: '' @ err) [call]
                    | Inr topics \<Rightarrow>
                       \<lparr>ret_claims = Some (Identity topics), ret_transcript = Some info,
                        ret_err = None, decrypt_calls = [call]\<rparr>))))"

section \<open>Failure classes\<close>

text \<open>
  The source has no error types: every failure is an error value built by
  \<^verbatim>\<open>fmt.Errorf\<close>, and what tells one failure from another is the constant text its
  message starts with. \<open>error_class\<close> reads the class of the specification off that text.
\<close>

datatype failure_class = DecodeError | ConstructionError | BindingError | DecryptError

definition error_class :: "string \<Rightarrow> failure_class option" where
  "error_class msg =
     (if prefix ''Error unmarshal cbor string: '' msg then Some DecodeError
      else if prefix ''failed to create aad: '' msg then Some ConstructionError
      else if prefix ''infoHash is not match: '' msg \<or> msg = ''PkRHash is not match''
        then Some BindingError
      else if prefix ''Error DecryptHPKE: '' msg then Some DecryptError
      else None)"

section \<open>Stand-ins for the primitives, for concrete runs\<close>

text \<open>
  A toy wire format and toy primitives, small enough to run by hand: an envelope is
  the bytes \<open>mode, infoHash, pkRHash\<close> followed by the ciphertext; the digest of a byte
  string is its length as one byte; key number \<open>k\<close> has the public key \<open>[k]\<close>;
  decryption rejects an empty ciphertext and otherwise returns it; the plaintext decodes
  to its first byte.
\<close>

fun toy_Unmarshal_envelope :: "bytes \<Rightarrow> string + HPKEEnvelope" where
  "toy_Unmarshal_envelope (a # i # p # rest) =
     Inr \<lparr>Algorithm = ''HPKE'',
          Params = \<lparr>Mode = ucast a, PkEM = [4], PkRHash = [p], InfoHash = [i]\<rparr>,
          Data = rest\<rparr>"
| "toy_Unmarshal_envelope _ = Inl ''unexpected EOF''"

definition toy_DecryptHPKE :: "bytes \<Rightarrow> bytes \<Rightarrow> bytes \<Rightarrow> byte \<Rightarrow> string + bytes" where
  "toy_DecryptHPKE ct pkEm info key =
     (if ct = [] then Inl ''message authentication failed'' else Inr ct)"

fun toy_Unmarshal_topics :: "bytes \<Rightarrow> string + byte topics" where
  "toy_Unmarshal_topics [] = Inl ''EOF''"
| "toy_Unmarshal_topics (b # bs) = Inr \<lparr>Identity = b\<rparr>"

definition toy :: "(byte, byte) primitives" where
  "toy =
     \<lparr>cbor_Unmarshal_envelope = toy_Unmarshal_envelope,
      Digest = (\<lambda>b alg. [word_of_int (int (length b))]),
      PublicKey_Bytes = (\<lambda>k. [k]),
      DecryptHPKE = toy_DecryptHPKE,
      cbor_Unmarshal_topics = toy_Unmarshal_topics\<rparr>"

definition toy_info :: bytes where
  \<comment> \<open>the transcript of merchant \<open>m\<close>, team \<open>t\<close>, nonce \<open>[1]\<close> and key digest \<open>[1]\<close>\<close>
  "toy_info =
     [0x83, 0xf6, 0xf6, 0x85,
      0x78, 0x1c, 0x41, 0x70, 0x70, 0x6c, 0x65, 0x49, 0x64, 0x65, 0x6e, 0x74, 0x69, 0x74, 0x79,
      0x50, 0x72, 0x65, 0x73, 0x65, 0x6e, 0x74, 0x6d, 0x65, 0x6e, 0x74, 0x5f, 0x31, 0x2e, 0x30,
      0x41, 0x01, 0x61, 0x6d, 0x61, 0x74, 0x41, 0x01]"


section \<open>The fixtures of the test file\<close>

definition nonce :: string where
  "nonce = ''964c3e56a06061fa213fce2ba73217a6d359c2e65d44ec6b5b94f9c57eeeb3c045906344c7032e2609eb60533c35a98a75d0d2444ef9057c55cbb2d05d672a25''"

definition infoHash :: string where
  "infoHash = ''59a47fc9fa2402cfefa5e889183d4222cb15bb10807e53d90b4eef5eb9ff1d96''"

definition sessionTranscript :: string where
  "sessionTranscript = ''83f6f685781c4170706c654964656e7469747950726573656e746d656e745f312e305840964c3e56a06061fa213fce2ba73217a6d359c2e65d44ec6b5b94f9c57eeeb3c045906344c7032e2609eb60533c35a98a75d0d2444ef9057c55cbb2d05d672a257821506173734b69745f4964656e746974795f546573745f4d65726368616e745f4944781d506173734b69745f4964656e746974795f546573745f5465616d5f49445820b2c00f06b2df645691174f1331ade35141f17e19b3021d07560b4a71fc61818c''"

definition merchantID :: string where
  "merchantID = ''PassKit_Identity_Test_Merchant_ID''"

definition teamID :: string where
  "teamID = ''PassKit_Identity_Test_Team_ID''"

definition pubByteSample :: string where
  \<comment> \<open>the digest of the reference public key, as \<^verbatim>\<open>TestPublickey\<close> has it\<close>
  "pubByteSample = ''b2c00f06b2df645691174f1331ade35141f17e19b3021d07560b4a71fc61818c''"

section \<open>Auxiliary facts\<close>

lemma ret_err_return_error [simp]: "ret_err (return_error msg calls) = Some msg"
  and ret_claims_return_error [simp]: "ret_claims (return_error msg calls) = None"
  and ret_transcript_return_error [simp]: "ret_transcript (return_error msg calls) = None"
  and decrypt_calls_return_error [simp]: "decrypt_calls (return_error msg calls) = calls"
  by (simp_all add: return_error_def)


text \<open>What is left of \<open>ParseDeviceResponse\<close> once the envelope is decoded.\<close>

lemma parse_decoded:
  assumes "cbor_Unmarshal_envelope P data = Inr env"
    and "generateAppleSessionTranscript m t n (Digest P (PublicKey_Bytes P k) ''SHA-256'') = Inr info"
  shows "ParseDeviceResponse P data m t k n =
     (if Digest P info ''SHA-256'' \<noteq> InfoHash (Params env) then
        return_error (''infoHash is not match: '' @ fmt_bytes (Digest P info ''SHA-256'')
                      @ '' != '' @ fmt_bytes (InfoHash (Params env))) []
      else if Digest P (PublicKey_Bytes P k) ''SHA-256'' \<noteq> PkRHash (Params env) then
        return_error ''PkRHash is not match'' []
      else
        (case DecryptHPKE P (Data env) (PkEM (Params env)) info k of
           Inl err \<Rightarrow> return_error (''Error DecryptHPKE: '' @ err)
                        [(Data env, PkEM (Params env), info, k)]
         | Inr plaintext \<Rightarrow>
            (case cbor_Unmarshal_topics P plaintext of
               Inl err \<Rightarrow> return_error (''Error unmarshal cbor string: '' @ err)
                            [(Data env, PkEM (Params env), info, k)]
             | Inr topics \<Rightarrow>
                \<lparr>ret_claims = Some (Identity topics), ret_transcript = Some info,
                 ret_err = None, decrypt_calls = [(Data env, PkEM (Params env), info, k)]\<rparr>)))"
  using assms by (simp add: ParseDeviceResponse_def Let_def)

text \<open>The class of the error of a run, by the first step that fails.\<close>

lemma parse_error_class:
  "map_option error_class (ret_err (ParseDeviceResponse P data m t k n)) =
     (case cbor_Unmarshal_envelope P data of
        Inl err \<Rightarrow> Some (Some DecodeError)
      | Inr env \<Rightarrow>
         (case generateAppleSessionTranscript m t n (Digest P (PublicKey_Bytes P k) ''SHA-256'') of
            Inl err \<Rightarrow> Some (Some ConstructionError)
          | Inr info \<Rightarrow>
             if Digest P info ''SHA-256'' \<noteq> InfoHash (Params env)
                \<or> Digest P (PublicKey_Bytes P k) ''SHA-256'' \<noteq> PkRHash (Params env)
             then Some (Some BindingError)
             else (case DecryptHPKE P (Data env) (PkEM (Params env)) info k of
                     Inl err \<Rightarrow> Some (Some DecryptError)
                   | Inr plaintext \<Rightarrow>
                      (case cbor_Unmarshal_topics P plaintext of
                         Inl err \<Rightarrow> Some (Some DecodeError)
                       | Inr topics \<Rightarrow> None))))"
  by (simp add: ParseDeviceResponse_def Let_def error_class_def split: sum.splits)

lemma class_of_error_iff:
  "(\<exists>msg. e = Some msg \<and> error_class msg = Some c)
     \<longleftrightarrow> map_option error_class e = Some (Some c)"
  by (cases e) auto

subsection \<open>Runs on the stand-in primitives\<close>

lemma toy_decode:
  "cbor_Unmarshal_envelope toy (a # i # p # rest) =
     Inr \<lparr>Algorithm = ''HPKE'',
          Params = \<lparr>Mode = ucast a, PkEM = [4], PkRHash = [p], InfoHash = [i]\<rparr>,
          Data = rest\<rparr>"
  by (simp add: toy_def)

lemma toy_transcript:
  "generateAppleSessionTranscript ''m'' ''t'' [1] (Digest toy (PublicKey_Bytes toy 5) ''SHA-256'')
     = Inr toy_info"
  by code_simp



lemma toy_digest_info: "Digest toy toy_info ''SHA-256'' = [42]"
  by code_simp

lemma toy_digest_key: "Digest toy (PublicKey_Bytes toy 5) ''SHA-256'' = [1]"
  by code_simp

lemma toy_decrypt_empty:
  "DecryptHPKE toy [] [4] toy_info 5 = Inl ''message authentication failed''"
  by (simp add: toy_def toy_DecryptHPKE_def)

lemma toy_decrypt_9: "DecryptHPKE toy [9] [4] toy_info 5 = Inr [9]"
  by (simp add: toy_def toy_DecryptHPKE_def)

lemma toy_topics_9: "cbor_Unmarshal_topics toy [9] = Inr \<lparr>Identity = 9\<rparr>"
  by (simp add: toy_def)

lemma toy_run_infohash:
  "ParseDeviceResponse toy [0, 41, 1, 9] ''m'' ''t'' 5 [1] =
     return_error ''infoHash is not match: [42] != [41]'' []"
  by code_simp

section \<open>The claims\<close>

text \<open>
  C1. Once the envelope is decoded, \<open>ParseDeviceResponse\<close> fails with an error of class
  \<open>BindingError\<close> exactly when the digest of the rebuilt transcript differs from the
  envelope's \<open>InfoHash\<close> or the digest of the verifier's public key differs from its
  \<open>PkRHash\<close>, the comparison being equality of the bytes. So when both digests match,
  neither check produces an error.
\<close>

theorem binding_error_iff_commitment_mismatch:
  assumes "cbor_Unmarshal_envelope P data = Inr env"
    and "generateAppleSessionTranscript m t n (Digest P (PublicKey_Bytes P k) ''SHA-256'') = Inr info"
  shows "(\<exists>msg. ret_err (ParseDeviceResponse P data m t k n) = Some msg
                \<and> error_class msg = Some BindingError)
         \<longleftrightarrow> (Digest P info ''SHA-256'' \<noteq> InfoHash (Params env)
              \<or> Digest P (PublicKey_Bytes P k) ''SHA-256'' \<noteq> PkRHash (Params env))"
  unfolding class_of_error_iff parse_error_class
  using assms by (simp split: sum.splits)

theorem binding_error_iff_commitment_mismatch_witness:
  "(\<exists>msg. ret_err (ParseDeviceResponse toy [0, 41, 1, 9] ''m'' ''t'' 5 [1]) = Some msg
          \<and> error_class msg = Some BindingError)
   \<and> (\<exists>msg. ret_err (ParseDeviceResponse toy [0, 42, 2, 9] ''m'' ''t'' 5 [1]) = Some msg
          \<and> error_class msg = Some BindingError)
   \<and> \<not> (\<exists>msg. ret_err (ParseDeviceResponse toy [0, 42, 1, 9] ''m'' ''t'' 5 [1]) = Some msg
          \<and> error_class msg = Some BindingError)"
  using binding_error_iff_commitment_mismatch [OF toy_decode [of 0 41 1 "[9]"] toy_transcript]
    binding_error_iff_commitment_mismatch [OF toy_decode [of 0 42 2 "[9]"] toy_transcript]
    binding_error_iff_commitment_mismatch [OF toy_decode [of 0 42 1 "[9]"] toy_transcript]
  by (simp add: toy_digest_info toy_digest_key)

text \<open>
  C2. When either commitment check fails, the run of \<open>ParseDeviceResponse\<close> makes no call
  of the decrypt primitive, and returns an error.
\<close>

theorem commitment_mismatch_skips_decrypt:
  assumes "cbor_Unmarshal_envelope P data = Inr env"
    and "generateAppleSessionTranscript m t n (Digest P (PublicKey_Bytes P k) ''SHA-256'') = Inr info"
    and "Digest P info ''SHA-256'' \<noteq> InfoHash (Params env)
         \<or> Digest P (PublicKey_Bytes P k) ''SHA-256'' \<noteq> PkRHash (Params env)"
  shows "decrypt_calls (ParseDeviceResponse P data m t k n) = []
         \<and> ret_err (ParseDeviceResponse P data m t k n) \<noteq> None"
  using assms(3) by (auto simp add: parse_decoded [OF assms(1,2)])

theorem commitment_mismatch_skips_decrypt_witness:
  "decrypt_calls (ParseDeviceResponse toy [0, 42, 2, 9] ''m'' ''t'' 5 [1]) = []
   \<and> ret_err (ParseDeviceResponse toy [0, 42, 2, 9] ''m'' ''t'' 5 [1]) \<noteq> None"
  using commitment_mismatch_skips_decrypt [OF toy_decode [of 0 42 2 "[9]"] toy_transcript]
  by (simp add: toy_digest_info toy_digest_key)


text \<open>
  C4. For an envelope that passes both commitment checks, the run calls the decrypt
  primitive exactly once, with the envelope's \<open>Data\<close> as ciphertext, its \<open>PkEM\<close> as sender
  ephemeral key, the rebuilt transcript as associated data and the verifier's private
  key; a failure of the primitive comes back to the caller as an error carrying its
  message.
\<close>

theorem decrypt_invoked_once_with_envelope_fields:
  assumes "cbor_Unmarshal_envelope P data = Inr env"
    and "generateAppleSessionTranscript m t n (Digest P (PublicKey_Bytes P k) ''SHA-256'') = Inr info"
    and "Digest P info ''SHA-256'' = InfoHash (Params env)"
    and "Digest P (PublicKey_Bytes P k) ''SHA-256'' = PkRHash (Params env)"
  shows "decrypt_calls (ParseDeviceResponse P data m t k n)
           = [(Data env, PkEM (Params env), info, k)]
         \<and> (\<forall>err. DecryptHPKE P (Data env) (PkEM (Params env)) info k = Inl err \<longrightarrow>
               ret_err (ParseDeviceResponse P data m t k n) = Some (''Error DecryptHPKE: '' @ err))"
  using assms(3,4) by (simp add: parse_decoded [OF assms(1,2)] split: sum.splits)

theorem decrypt_invoked_once_with_envelope_fields_witness:
  "decrypt_calls (ParseDeviceResponse toy [0, 42, 1] ''m'' ''t'' 5 [1]) = [([], [4], toy_info, 5)]
   \<and> ret_err (ParseDeviceResponse toy [0, 42, 1] ''m'' ''t'' 5 [1])
       = Some ''Error DecryptHPKE: message authentication failed''"
  using decrypt_invoked_once_with_envelope_fields [OF toy_decode [of 0 42 1 "[]"] toy_transcript]
  by (simp add: toy_digest_info toy_digest_key toy_decrypt_empty)

text \<open>
  C5. When the envelope decodes, both commitment checks pass, decryption succeeds and
  the plaintext decodes, \<open>ParseDeviceResponse\<close> returns the \<open>Identity\<close> field of the decoded
  plaintext wrapper, the rebuilt transcript, and no error; the transcript returned is
  the associated data the decrypt primitive was called with.
\<close>

theorem success_returns_identity_and_transcript:
  assumes "cbor_Unmarshal_envelope P data = Inr env"
    and "generateAppleSessionTranscript m t n (Digest P (PublicKey_Bytes P k) ''SHA-256'') = Inr info"
    and "Digest P info ''SHA-256'' = InfoHash (Params env)"
    and "Digest P (PublicKey_Bytes P k) ''SHA-256'' = PkRHash (Params env)"
    and "DecryptHPKE P (Data env) (PkEM (Params env)) info k = Inr plaintext"
    and "cbor_Unmarshal_topics P plaintext = Inr topics"
  shows "ret_claims (ParseDeviceResponse P data m t k n) = Some (Identity topics)
         \<and> ret_transcript (ParseDeviceResponse P data m t k n) = Some info
         \<and> ret_err (ParseDeviceResponse P data m t k n) = None
         \<and> map (\<lambda>(ciphertext, pkEm, aad, key). aad)
               (decrypt_calls (ParseDeviceResponse P data m t k n)) = [info]"
  using assms(3-) by (simp add: parse_decoded [OF assms(1,2)])

theorem success_returns_identity_and_transcript_witness:
  "ret_claims (ParseDeviceResponse toy [0, 42, 1, 9] ''m'' ''t'' 5 [1]) = Some 9
   \<and> ret_transcript (ParseDeviceResponse toy [0, 42, 1, 9] ''m'' ''t'' 5 [1]) = Some toy_info
   \<and> ret_err (ParseDeviceResponse toy [0, 42, 1, 9] ''m'' ''t'' 5 [1]) = None"
  using success_returns_identity_and_transcript
          [OF toy_decode [of 0 42 1 "[9]"] toy_transcript, of "[9]" "\<lparr>Identity = 9\<rparr>"]
  by (simp add: toy_digest_info toy_digest_key toy_decrypt_9 toy_topics_9)

text \<open>
  C6. On the fixtures of the test file (the two identifiers, the 64-byte nonce and the
  digest of the reference public key), \<open>generateAppleSessionTranscript\<close> returns the bytes
  whose hexadecimal form is the string \<open>sessionTranscript\<close>, and the SHA-256 digest of
  these bytes is the string \<open>infoHash\<close> decoded.
\<close>

theorem reference_fixture_transcript_and_digest:
  "(case hex_DecodeString nonce of
      None \<Rightarrow> False
    | Some nonceByte \<Rightarrow>
       (case hex_DecodeString pubByteSample of
          None \<Rightarrow> False
        | Some requesterKeyDigest \<Rightarrow>
           (case generateAppleSessionTranscript merchantID teamID nonceByte requesterKeyDigest of
              Inl err \<Rightarrow> False
            | Inr actual \<Rightarrow>
               length nonceByte = 64
               \<and> hex_EncodeToString actual = sessionTranscript
               \<and> hex_DecodeString infoHash = Some (sha256 actual))))"
  by code_simp





text \<open>
  C9. Whenever \<open>ParseDeviceResponse\<close> returns an error, whichever step has failed, both
  the claims and the transcript it returns are \<open>nil\<close>: the transcript already built is
  not returned beside an error.
\<close>

theorem error_returns_nil_results:
  "ret_err (ParseDeviceResponse P data m t k n) \<noteq> None \<Longrightarrow>
     ret_claims (ParseDeviceResponse P data m t k n) = None
     \<and> ret_transcript (ParseDeviceResponse P data m t k n) = None"
  by (auto simp add: ParseDeviceResponse_def Let_def split: sum.splits if_splits)

theorem error_returns_nil_results_witness:
  "ret_err (ParseDeviceResponse toy [0, 41, 1, 9] ''m'' ''t'' 5 [1]) \<noteq> None
   \<and> ret_claims (ParseDeviceResponse toy [0, 41, 1, 9] ''m'' ''t'' 5 [1]) = None
   \<and> ret_transcript (ParseDeviceResponse toy [0, 41, 1, 9] ''m'' ''t'' 5 [1]) = None"
  using error_returns_nil_results [of toy "[0, 41, 1, 9]" "''m''" "''t''" 5 "[1]"]
  by (simp add: toy_run_infohash)

text \<open>
  C10. \<open>ParseDeviceResponse\<close> reads neither the \<open>Algorithm\<close> of the envelope nor the
  \<open>Mode\<close> of its parameters: two inputs that decode to envelopes differing in these two
  fields only give the same results, the same error and the same calls.
\<close>

theorem algorithm_and_mode_not_inspected:
  assumes "cbor_Unmarshal_envelope P d1 = Inr e1"
    and "cbor_Unmarshal_envelope P d2 = Inr e2"
    and "e2 = e1\<lparr>Algorithm := a, Params := (Params e1)\<lparr>Mode := mo\<rparr>\<rparr>"
  shows "ParseDeviceResponse P d1 m t k n = ParseDeviceResponse P d2 m t k n"
  using assms by (simp add: ParseDeviceResponse_def split: sum.splits)

theorem algorithm_and_mode_not_inspected_witness:
  "ParseDeviceResponse toy [0, 42, 1, 9] ''m'' ''t'' 5 [1]
     = ParseDeviceResponse toy [7, 42, 1, 9] ''m'' ''t'' 5 [1]"
  using algorithm_and_mode_not_inspected
          [OF toy_decode [of 0 42 1 "[9]"] toy_decode [of 7 42 1 "[9]"],
           where a = "''HPKE''" and mo = 7]
  by simp

end
